theory Spec2Isabelle
  imports Complex_Main "HOL-Library.List_Lexorder" "HOL-Library.Char_ord"
begin

section \<open>Change detection of js-sentinel: data model\<close>

text \<open>
  The development follows \<^verbatim>\<open>src/services/monitor_service.py\<close> and
  \<^verbatim>\<open>src/services/content_storage.py\<close>. Python floats are read as real numbers, Python
  dictionaries with a fixed set of keys as records, and a key that a dictionary may lack
  as an optional field.

  A chunk is the dictionary \<^verbatim>\<open>{'start', 'end', 'hash', 'weight'}\<close> that
  \<^verbatim>\<open>generate_position_aware_hash\<close> appends to \<^verbatim>\<open>chunk_details\<close>.
\<close>

record chunk =
  chunk_start :: nat
  chunk_end :: nat
  chunk_hash :: string
  weight :: real

text \<open>
  The hash information of one content version. \<^verbatim>\<open>hash\<close> is \<^verbatim>\<open>None\<close> in the legacy
  record that \<^verbatim>\<open>monitor_single_url\<close> builds for a URL that was never checked;
  \<^verbatim>\<open>chunks\<close> and \<^verbatim>\<open>chunk_details\<close> are keys that only some methods write. The key
  \<^verbatim>\<open>method\<close> is the field \<open>method_tag\<close>.
\<close>

record hash_info =
  hash :: "string option"
  method_tag :: string
  confidence :: real
  chunks :: "nat option"
  chunk_details :: "chunk list option"

datatype change_type = Added | Removed | Modified

text \<open>
  One entry of \<^verbatim>\<open>changed_chunks\<close>. The keys \<^verbatim>\<open>start\<close> and \<^verbatim>\<open>end\<close> are written for a
  modified chunk only.
\<close>

record changed_chunk =
  chunk_index :: nat
  change_type :: change_type
  changed_weight :: real
  changed_span :: "(nat \<times> nat) option"

text \<open>
  The keys \<^verbatim>\<open>changed_chunks\<close>, \<^verbatim>\<open>change_ratio\<close> and \<^verbatim>\<open>has_important_change\<close> are
  written together, by \<^verbatim>\<open>compare_chunk_hashes\<close> when some chunk changed, and are absent
  from every other result.
\<close>

record chunk_evidence =
  changed_chunks :: "changed_chunk list"
  change_ratio :: real
  has_important_change :: bool

record change_result =
  changed :: bool
  result_confidence :: real
  evidence :: "chunk_evidence option"

text \<open>The dictionary returned by \<^verbatim>\<open>enhanced_content_comparison\<close>.\<close>

record content_similarity =
  similarity :: real
  major_change :: bool
  length_diff :: real

section \<open>The change classifier\<close>

definition plain_result :: "bool \<Rightarrow> real \<Rightarrow> change_result" where
  "plain_result c conf = \<lparr>changed = c, result_confidence = conf, evidence = None\<rparr>"

text \<open>\<^verbatim>\<open>xs[i] if i < len(xs) else None\<close>\<close>

definition chunk_at :: "chunk list \<Rightarrow> nat \<Rightarrow> chunk option" where
  "chunk_at xs i = (if i < length xs then Some (xs ! i) else None)"

text \<open>
  The body of the loop of \<^verbatim>\<open>compare_chunk_hashes\<close> at position \<open>i\<close>: the entries it
  appends to \<^verbatim>\<open>changed_chunks\<close>. Both sides are absent at no position below
  \<^verbatim>\<open>max_chunks\<close>.
\<close>

fun chunk_change :: "nat \<Rightarrow> chunk option \<Rightarrow> chunk option \<Rightarrow> changed_chunk list" where
  "chunk_change i None None = []"
| "chunk_change i (Some oc) None =
     [\<lparr>chunk_index = i, change_type = Removed, changed_weight = weight oc, changed_span = None\<rparr>]"
| "chunk_change i None (Some nc) =
     [\<lparr>chunk_index = i, change_type = Added, changed_weight = weight nc, changed_span = None\<rparr>]"
| "chunk_change i (Some oc) (Some nc) =
     (if chunk_hash oc \<noteq> chunk_hash nc
      then [\<lparr>chunk_index = i, change_type = Modified, changed_weight = weight nc,
             changed_span = Some (chunk_start nc, chunk_end nc)\<rparr>]
      else [])"

definition changed_chunks_of :: "chunk list \<Rightarrow> chunk list \<Rightarrow> changed_chunk list" where
  "changed_chunks_of old_chunks new_chunks =
     concat (map (\<lambda>i. chunk_change i (chunk_at old_chunks i) (chunk_at new_chunks i))
                 [0 ..< max (length old_chunks) (length new_chunks)])"

definition important_change :: "changed_chunk \<Rightarrow> bool" where
  "important_change c = (chunk_index c \<le> 1 \<and> changed_weight c \<ge> 2.0)"

text \<open>\<^verbatim>\<open>old_hash_info.get('chunk_details', [])\<close>\<close>

definition chunk_details_of :: "hash_info \<Rightarrow> chunk list" where
  "chunk_details_of h = (case chunk_details h of None \<Rightarrow> [] | Some cs \<Rightarrow> cs)"

definition compare_chunk_hashes :: "hash_info \<Rightarrow> hash_info \<Rightarrow> change_result option" where
  "compare_chunk_hashes old_hash_info new_hash_info =
     (if method_tag old_hash_info \<noteq> ''position_aware_chunked'' \<or>
         method_tag new_hash_info \<noteq> ''position_aware_chunked''
      then None
      else
        let old_chunks = chunk_details_of old_hash_info;
            new_chunks = chunk_details_of new_hash_info;
            cs = changed_chunks_of old_chunks new_chunks
        in if cs = [] then Some (plain_result False 0.98)
           else
             let total_weight = sum_list (map weight (old_chunks @ new_chunks));
                 changed_weight = sum_list (map changed_weight cs);
                 ratio = (if total_weight > 0 then changed_weight / total_weight else 1.0);
                 important = list_ex important_change cs;
                 base_confidence = 0.85;
                 conf = (if important then min 0.98 (base_confidence + 0.10)
                         else min 0.95 (base_confidence + ratio * 0.10))
             in Some \<lparr>changed = True, result_confidence = conf,
                       evidence = Some \<lparr>changed_chunks = cs, change_ratio = ratio,
                                         has_important_change = important\<rparr>\<rparr>)"

text \<open>\<^verbatim>\<open>change_result.get('has_important_change', False)\<close>\<close>

definition get_has_important_change :: "change_result \<Rightarrow> bool" where
  "get_has_important_change r =
     (case evidence r of None \<Rightarrow> False | Some e \<Rightarrow> has_important_change e)"


definition calculate_change_confidence ::
  "hash_info \<Rightarrow> hash_info \<Rightarrow> content_similarity option \<Rightarrow> change_result" where
  "calculate_change_confidence old_hash_info new_hash_info sim =
     (if hash old_hash_info = hash new_hash_info then plain_result False 0.99
      else
        case compare_chunk_hashes old_hash_info new_hash_info of
          Some chunk_result \<Rightarrow>
            if changed chunk_result \<and> result_confidence chunk_result \<ge> 0.85 then chunk_result
            else (case sim of
                    Some s \<Rightarrow>
                      if get_has_important_change chunk_result
                      then (if similarity s < 0.999
                            then plain_result True (min (result_confidence chunk_result * 1.05) 0.98)
                            else plain_result False 0.90)
                      else (if similarity s < 0.995
                            then plain_result True (result_confidence chunk_result)
                            else plain_result False 0.90)
                  | None \<Rightarrow> chunk_result)
        | None \<Rightarrow>
            let base_confidence = min (confidence old_hash_info) (confidence new_hash_info)
            in (case sim of
                  Some s \<Rightarrow>
                    if similarity s > 0.98 \<and> length_diff s < 0.01 then plain_result False 0.95
                    else if similarity s > 0.95 then plain_result True (base_confidence * 0.9)
                    else plain_result True (min (base_confidence * 1.1) 0.99)
                | None \<Rightarrow> plain_result True base_confidence))"

text \<open>
  \<^verbatim>\<open>enhanced_content_comparison\<close>. The two \<^verbatim>\<open>difflib.SequenceMatcher(...).ratio()\<close>
  calls belong to the Python library and are parameters: \<open>line_ratio\<close> for the ratio of the
  two \<^verbatim>\<open>splitlines()\<close> lists, \<open>char_ratio\<close> for the ratio of the two texts.
\<close>

definition enhanced_content_comparison ::
  "(string \<Rightarrow> string \<Rightarrow> real) \<Rightarrow> (string \<Rightarrow> string \<Rightarrow> real) \<Rightarrow> string \<Rightarrow> string
     \<Rightarrow> content_similarity" where
  "enhanced_content_comparison line_ratio char_ratio old_content new_content =
     (let old_len = length old_content;
          new_len = length new_content;
          max_len = max old_len new_len
      in if max_len = 0
         then \<lparr>similarity = 1.0, major_change = False, length_diff = 0.0\<rparr>
         else
           let ldiff = \<bar>real old_len - real new_len\<bar> / real max_len
           in if ldiff > 0.3
              then \<lparr>similarity = 0.0, major_change = True, length_diff = ldiff\<rparr>
              else
                let s0 = line_ratio old_content new_content;
                    s = (if max_len < 1000 then max s0 (char_ratio old_content new_content)
                         else s0)
                in \<lparr>similarity = s, major_change = (s < 0.7 \<or> ldiff > 0.2),
                     length_diff = ldiff\<rparr>)"

section \<open>The chunk comparison, position by position\<close>

text \<open>
  The vocabulary in which the results below describe \<^verbatim>\<open>compare_chunk_hashes\<close> without
  its loop. Position \<open>i\<close> differs when exactly one of the two lists has a chunk there
  (added or removed) or both have one and the hashes differ (modified). The weight that
  the code records for a changed position is the new chunk's when the new list has the
  position, else the old chunk's. \<open>guarded_ratio\<close> is the ratio as the code computes it,
  \<open>claimed_ratio\<close> the plain quotient, and \<open>claimed_confidence\<close> the confidence formula, both
  as the specification words them.
\<close>

definition chunk_differs :: "chunk list \<Rightarrow> chunk list \<Rightarrow> nat \<Rightarrow> bool" where
  "chunk_differs old_chunks new_chunks i =
     (if i < length old_chunks \<and> i < length new_chunks
      then chunk_hash (old_chunks ! i) \<noteq> chunk_hash (new_chunks ! i)
      else i < length old_chunks \<or> i < length new_chunks)"

definition weight_at :: "chunk list \<Rightarrow> chunk list \<Rightarrow> nat \<Rightarrow> real" where
  "weight_at old_chunks new_chunks i =
     (if i < length new_chunks then weight (new_chunks ! i) else weight (old_chunks ! i))"

definition total_weight :: "chunk list \<Rightarrow> chunk list \<Rightarrow> real" where
  "total_weight old_chunks new_chunks = sum_list (map weight old_chunks) + sum_list (map weight new_chunks)"

definition changed_weight_sum :: "chunk list \<Rightarrow> chunk list \<Rightarrow> real" where
  "changed_weight_sum old_chunks new_chunks =
     sum_list (map (weight_at old_chunks new_chunks)
       (filter (chunk_differs old_chunks new_chunks) [0 ..< max (length old_chunks) (length new_chunks)]))"

definition some_chunk_differs :: "chunk list \<Rightarrow> chunk list \<Rightarrow> bool" where
  "some_chunk_differs old_chunks new_chunks =
     list_ex (chunk_differs old_chunks new_chunks) [0 ..< max (length old_chunks) (length new_chunks)]"

definition important_at :: "chunk list \<Rightarrow> chunk list \<Rightarrow> bool" where
  "important_at old_chunks new_chunks =
     list_ex (\<lambda>i. chunk_differs old_chunks new_chunks i \<and> weight_at old_chunks new_chunks i \<ge> 2.0) [0, 1]"

definition guarded_ratio :: "chunk list \<Rightarrow> chunk list \<Rightarrow> real" where
  "guarded_ratio old_chunks new_chunks =
     (if total_weight old_chunks new_chunks > 0
      then changed_weight_sum old_chunks new_chunks / total_weight old_chunks new_chunks
      else 1)"

definition claimed_ratio :: "chunk list \<Rightarrow> chunk list \<Rightarrow> real" where
  "claimed_ratio old_chunks new_chunks =
     changed_weight_sum old_chunks new_chunks / total_weight old_chunks new_chunks"

definition claimed_confidence :: "bool \<Rightarrow> real \<Rightarrow> real" where
  "claimed_confidence important ratio =
     (if important then min 0.98 (0.85 + 0.10) else min 0.95 (0.85 + 0.10 * ratio))"

text \<open>A hash information of the chunked method; one without a negative chunk weight.\<close>

definition chunked :: "hash_info \<Rightarrow> bool" where
  "chunked h = (method_tag h = ''position_aware_chunked'')"


section \<open>The fingerprint engine\<close>

text \<open>
  \<^verbatim>\<open>generate_position_aware_hash\<close> is defined twice in the module; the second
  definition (chunk size 2000, windows every \<^verbatim>\<open>chunk_size // 2\<close> characters, weights 3, 2,
  1) replaces the first when the module is loaded and is the one modelled here.
  \<^verbatim>\<open>hashlib.md5(...).hexdigest()\<close> is the parameter \<open>md5\<close>, the regular-expression
  rewriting of \<^verbatim>\<open>normalize_javascript_content\<close> the parameter \<open>normalizer\<close>. The source
  keeps the list \<^verbatim>\<open>chunk_hashes\<close> of (hash, weight) pairs beside \<^verbatim>\<open>chunks\<close>; both hold
  the same hashes and weights, so the model keeps \<^verbatim>\<open>chunks\<close> only. The chunk size is a
  length and is a natural number here.
\<close>

datatype py_error = ValueError | IndexError | OSError

text \<open>
  \<^verbatim>\<open>range(0, stop, step)\<close> as a list; Python raises \<^verbatim>\<open>ValueError\<close> for a step of 0.
\<close>

definition py_range :: "nat \<Rightarrow> nat \<Rightarrow> py_error + nat list" where
  "py_range stop step =
     (if step = 0 then Inl ValueError
      else Inr (map (\<lambda>k. k * step) [0 ..< (stop + step - 1) div step]))"

definition simple_info :: "string \<Rightarrow> hash_info" where
  "simple_info content_hash =
     \<lparr>hash = Some content_hash, method_tag = ''simple_content'', confidence = 0.9,
      chunks = Some 1, chunk_details = None\<rparr>"

definition chunked_info :: "string \<Rightarrow> chunk list \<Rightarrow> hash_info" where
  "chunked_info combined_hash cs =
     \<lparr>hash = Some combined_hash, method_tag = ''position_aware_chunked'', confidence = 0.92,
      chunks = Some (length cs), chunk_details = Some cs\<rparr>"

definition ast_info :: "string \<Rightarrow> hash_info" where
  "ast_info h = \<lparr>hash = Some h, method_tag = ''ast'', confidence = 0.95, chunks = None,
                chunk_details = None\<rparr>"

definition chunk_weight :: "nat \<Rightarrow> real" where
  "chunk_weight chunk_number =
     (if chunk_number = 0 then 3.0 else if chunk_number = 1 then 2.0 else 1.0)"

fun hash_chunks ::
  "(string \<Rightarrow> string) \<Rightarrow> (string \<Rightarrow> string) \<Rightarrow> string \<Rightarrow> nat \<Rightarrow> nat list \<Rightarrow> chunk list
     \<Rightarrow> chunk list" where
  "hash_chunks md5 normalizer js_content chunk_size [] acc = acc"
| "hash_chunks md5 normalizer js_content chunk_size (i # offsets) acc =
     (let chunk = take chunk_size (drop i js_content)
      in if length chunk < 100
         then hash_chunks md5 normalizer js_content chunk_size offsets acc
         else hash_chunks md5 normalizer js_content chunk_size offsets
                (acc @ [\<lparr>chunk_start = i, chunk_end = i + length chunk,
                          chunk_hash = md5 (normalizer chunk),
                          weight = chunk_weight (length acc)\<rparr>]))"

definition weighted_hash_parts :: "chunk list \<Rightarrow> string" where
  "weighted_hash_parts cs =
     concat (map (\<lambda>c. concat (replicate (nat \<lfloor>weight c\<rfloor>) (chunk_hash c))) cs)"

definition generate_position_aware_hash ::
  "(string \<Rightarrow> string) \<Rightarrow> (string \<Rightarrow> string) \<Rightarrow> string \<Rightarrow> nat \<Rightarrow> py_error + hash_info" where
  "generate_position_aware_hash md5 normalizer js_content chunk_size =
     (if length js_content \<le> chunk_size then Inr (simple_info (md5 js_content))
      else
        case py_range (length js_content) (chunk_size div 2) of
          Inl e \<Rightarrow> Inl e
        | Inr offsets \<Rightarrow>
            let cs = hash_chunks md5 normalizer js_content chunk_size offsets []
            in Inr (chunked_info (md5 (weighted_hash_parts cs)) cs))"

definition default_chunk_size :: nat where
  "default_chunk_size = 2000"

text \<open>
  \<^verbatim>\<open>generate_enhanced_ast_hash\<close>. Parsing with esprima, cleaning the tree, serialising it
  and hashing the serialisation are one parameter \<open>ast_hash\<close>, which is \<open>None\<close> when any
  of these steps raises.
\<close>

definition generate_enhanced_ast_hash ::
  "(string \<Rightarrow> string) \<Rightarrow> (string \<Rightarrow> string) \<Rightarrow> (string \<Rightarrow> string option) \<Rightarrow> string
     \<Rightarrow> py_error + hash_info" where
  "generate_enhanced_ast_hash md5 normalizer ast_hash js_content =
     (if length js_content > 10000
      then generate_position_aware_hash md5 normalizer js_content default_chunk_size
      else
        case ast_hash (normalizer js_content) of
          Some h \<Rightarrow> Inr (ast_info h)
        | None \<Rightarrow> generate_position_aware_hash md5 normalizer js_content default_chunk_size)"

section \<open>The diff renderer\<close>











text \<open>
  A piece that \<^verbatim>\<open>generate_chunk_diff\<close> appends to \<^verbatim>\<open>chunk_html\<close>: the header of a chunk,
  a context line with its line number, a removed or an added line with its change
  identifier and line number. Each stands for a string that is not empty.
\<close>

datatype html_piece =
    Chunk_header nat
  | Context_line nat string
  | Removed_line nat nat string
  | Added_line nat nat string



















section \<open>The monitoring cycle\<close>

text \<open>
  The columns of a \<^verbatim>\<open>MonitoredUrl\<close> that one monitoring cycle reads and writes.
  \<^verbatim>\<open>last_hash_info\<close> is read through \<^verbatim>\<open>hasattr\<close>: the attribute may be missing, empty,
  hold text that \<^verbatim>\<open>json.loads\<close> rejects, or hold a stored hash information.
\<close>

datatype stored_info = No_attribute | Empty_info | Bad_json | Json hash_info

record monitored_url =
  last_hash :: "string option"
  last_hash_info :: stored_info

datatype message =
    Download_failed
  | No_changes_detected
  | Changes_detected
  | No_significant_changes
  | Changes_without_previous
  | First_check_completed
  | Error_monitoring

text \<open>
  The dictionary that \<^verbatim>\<open>monitor_single_url\<close> returns. A failure result has the keys
  \<^verbatim>\<open>success\<close> and \<^verbatim>\<open>message\<close> only.
\<close>

record monitor_result =
  success :: bool
  message :: message
  changed_key :: "bool option"
  confidence_key :: "real option"
  method_key :: "string option"

definition failure_result :: "message \<Rightarrow> monitor_result" where
  "failure_result m =
     \<lparr>success = False, message = m, changed_key = None, confidence_key = None,
      method_key = None\<rparr>"

definition success_result :: "message \<Rightarrow> bool \<Rightarrow> real \<Rightarrow> string \<Rightarrow> monitor_result" where
  "success_result m c conf meth =
     \<lparr>success = True, message = m, changed_key = Some c, confidence_key = Some conf,
      method_key = Some meth\<rparr>"

text \<open>\<^verbatim>\<open>result.get("changed", False)\<close>, as \<^verbatim>\<open>run_monitoring_check\<close> reads a result.\<close>

definition get_changed :: "monitor_result \<Rightarrow> bool" where
  "get_changed r = (case changed_key r of None \<Rightarrow> False | Some c \<Rightarrow> c)"

text \<open>
  What the collaborators of one cycle answer: the download, the deobfuscator, the
  beautifier, the hash generator, the content storage before and after the new version is
  stored, the diff renderer, the saving of the diff file, the notification and the database
  commit. An \<open>Inl\<close> is an exception raised by the call. \<open>get_obfuscation_score\<close> stands
  for the two analysis calls of the deobfuscator, \<open>generate_hash\<close> for
  \<^verbatim>\<open>generate_enhanced_ast_hash\<close>, \<open>html_diff\<close> for \<^verbatim>\<open>generate_enhanced_html_diff\<close>.
\<close>

record collaborators =
  download_javascript :: "py_error + string option"
  get_obfuscation_score :: "string \<Rightarrow> py_error + real"
  deobfuscate :: "string \<Rightarrow> py_error + string"
  beautify_javascript :: "string \<Rightarrow> string"
  generate_hash :: "string \<Rightarrow> py_error + hash_info"
  line_similarity :: "string \<Rightarrow> string \<Rightarrow> real"
  char_similarity :: "string \<Rightarrow> string \<Rightarrow> real"
  get_previous_content :: "py_error + string option"
  store_version :: "py_error + unit"
  get_previous_content_stored :: "py_error + string option"
  html_diff :: "string \<Rightarrow> string \<Rightarrow> py_error + html_piece list list option"
  save_diff_file :: "py_error + unit"
  send_notification :: "py_error + unit"
  commit :: "py_error + unit"

definition legacy_info :: "string option \<Rightarrow> hash_info" where
  "legacy_info h =
     \<lparr>hash = h, method_tag = ''legacy'', confidence = 0.5, chunks = None, chunk_details = None\<rparr>"

definition old_hash_info_of :: "monitored_url \<Rightarrow> hash_info" where
  "old_hash_info_of u =
     (case last_hash_info u of
        Json h \<Rightarrow> h
      | _ \<Rightarrow> legacy_info (last_hash u))"

text \<open>\<^verbatim>\<open>if old_hash_info['hash']:\<close> is false for \<^verbatim>\<open>None\<close> and for the empty string.\<close>

definition has_hash :: "hash_info \<Rightarrow> bool" where
  "has_hash h = (case hash h of None \<Rightarrow> False | Some s \<Rightarrow> s \<noteq> [])"

text \<open>
  The change detection of \<^verbatim>\<open>monitor_single_url\<close>: the first classification, and below a
  confidence of 0.80 the comparison of the previous content with the current one and the
  second classification. The result holds the verdict and the comparison that was made,
  if one was.
\<close>

definition verify_change ::
  "(string \<Rightarrow> string \<Rightarrow> real) \<Rightarrow> (string \<Rightarrow> string \<Rightarrow> real) \<Rightarrow> (py_error + string option)
     \<Rightarrow> hash_info \<Rightarrow> hash_info \<Rightarrow> string
     \<Rightarrow> py_error + (change_result \<times> content_similarity option)" where
  "verify_change lr cr previous old_hash_info current_hash_info content =
     (let change_result = calculate_change_confidence old_hash_info current_hash_info None
      in if result_confidence change_result < 0.80
         then (case previous of
                 Inl e \<Rightarrow> Inl e
               | Inr None \<Rightarrow> Inr (change_result, None)
               | Inr (Some previous_content) \<Rightarrow>
                   if previous_content \<noteq> []
                   then let comparison = enhanced_content_comparison lr cr previous_content content
                        in Inr (calculate_change_confidence old_hash_info current_hash_info
                                  (Some comparison), Some comparison)
                   else Inr (change_result, None))
         else Inr (change_result, None))"

text \<open>
  The rest of the cycle once the content counts as changed or the URL has no hash yet:
  store the version, render the diff against the previous version, update the record.
  \<open>conf\<close> is the confidence of the verdict, or of the current hash information when no
  classification was made.
\<close>

definition record_change ::
  "collaborators \<Rightarrow> monitored_url \<Rightarrow> hash_info \<Rightarrow> hash_info \<Rightarrow> string \<Rightarrow> real
     \<Rightarrow> py_error + (monitor_result \<times> monitored_url)" where
  "record_change env u old_hash_info current_hash_info content conf =
     (case store_version env of
        Inl e \<Rightarrow> Inl e
      | Inr _ \<Rightarrow>
          let outcome =
            (if has_hash old_hash_info
             then (case get_previous_content_stored env of
                     Inl e \<Rightarrow> Inl e
                   | Inr None \<Rightarrow> Inr (Changes_without_previous, True)
                   | Inr (Some previous_content) \<Rightarrow>
                       if previous_content \<noteq> []
                       then (case html_diff env previous_content content of
                               Inl e \<Rightarrow> Inl e
                             | Inr None \<Rightarrow> Inr (No_significant_changes, False)
                             | Inr (Some report) \<Rightarrow>
                                 (case save_diff_file env of
                                    Inl e \<Rightarrow> Inl e
                                  | Inr _ \<Rightarrow>
                                      (case send_notification env of
                                         Inl e \<Rightarrow> Inl e
                                       | Inr _ \<Rightarrow> Inr (Changes_detected, True))))
                       else Inr (Changes_without_previous, True))
             else Inr (First_check_completed, False))
          in case outcome of
               Inl e \<Rightarrow> Inl e
             | Inr (m, c) \<Rightarrow>
                 (case commit env of
                    Inl e \<Rightarrow> Inl e
                  | Inr _ \<Rightarrow>
                      Inr (success_result m c conf (method_tag current_hash_info),
                           u\<lparr>last_hash := hash current_hash_info,
                             last_hash_info :=
                               (if last_hash_info u = No_attribute then No_attribute
                                else Json current_hash_info)\<rparr>)))"

definition monitor_cycle ::
  "collaborators \<Rightarrow> monitored_url \<Rightarrow> py_error + (monitor_result \<times> monitored_url)" where
  "monitor_cycle env u =
     (case download_javascript env of
        Inl e \<Rightarrow> Inl e
      | Inr None \<Rightarrow> Inr (failure_result Download_failed, u)
      | Inr (Some downloaded) \<Rightarrow>
          (case get_obfuscation_score env downloaded of
             Inl e \<Rightarrow> Inl e
           | Inr obfuscation_score \<Rightarrow>
               (case (if obfuscation_score > 0.3 then deobfuscate env downloaded
                      else Inr downloaded) of
                  Inl e \<Rightarrow> Inl e
                | Inr deobfuscated \<Rightarrow>
                    let content = beautify_javascript env deobfuscated
                    in (case generate_hash env content of
                          Inl e \<Rightarrow> Inl e
                        | Inr current_hash_info \<Rightarrow>
                            let old_hash_info = old_hash_info_of u
                            in if has_hash old_hash_info
                               then (case verify_change (line_similarity env) (char_similarity env)
                                            (get_previous_content env) old_hash_info
                                            current_hash_info content of
                                       Inl e \<Rightarrow> Inl e
                                     | Inr (change_result, comparison) \<Rightarrow>
                                         if \<not> changed change_result
                                         then (case commit env of
                                                 Inl e \<Rightarrow> Inl e
                                               | Inr _ \<Rightarrow>
                                                   Inr (success_result No_changes_detected False
                                                          (result_confidence change_result)
                                                          (method_tag current_hash_info), u))
                                         else record_change env u old_hash_info current_hash_info
                                                content (result_confidence change_result))
                               else record_change env u old_hash_info current_hash_info content
                                      (confidence current_hash_info)))))"

text \<open>
  \<^verbatim>\<open>monitor_single_url\<close>: an exception raised anywhere in the cycle is caught and becomes
  a failure result.
\<close>

definition monitor_single_url :: "collaborators \<Rightarrow> monitored_url \<Rightarrow> monitor_result \<times> monitored_url" where
  "monitor_single_url env u =
     (case monitor_cycle env u of
        Inl e \<Rightarrow> (failure_result Error_monitoring, u)
      | Inr r \<Rightarrow> r)"

text \<open>A URL that was never checked: no hash and no hash information is stored.\<close>

definition never_checked :: "monitored_url \<Rightarrow> bool" where
  "never_checked u =
     (last_hash u = None \<and> (last_hash_info u = No_attribute \<or> last_hash_info u = Empty_info))"

section \<open>The content storage\<close>










section \<open>Concrete inputs\<close>

text \<open>
  Small inputs on which the theorems below are evaluated, and stand-ins for the library
  functions that the model takes as parameters.
\<close>

definition three_chunks :: "string \<Rightarrow> real \<Rightarrow> chunk list" where
  "three_chunks h w =
     [\<lparr>chunk_start = 0, chunk_end = 2000, chunk_hash = ''c0'', weight = 3\<rparr>,
      \<lparr>chunk_start = 1000, chunk_end = 3000, chunk_hash = ''c1'', weight = 2\<rparr>,
      \<lparr>chunk_start = 2000, chunk_end = 3500, chunk_hash = h, weight = w\<rparr>]"



definition text_of_length :: "nat \<Rightarrow> string" where
  "text_of_length n = replicate n (CHR ''a'')"

definition const_ratio :: "real \<Rightarrow> string \<Rightarrow> string \<Rightarrow> real" where
  "const_ratio r a b = r"

definition plain_md5 :: "string \<Rightarrow> string" where
  "plain_md5 s = s"



text \<open>Collaborators that all succeed, for evaluation.\<close>

definition quiet_collaborators :: collaborators where
  "quiet_collaborators =
     \<lparr>download_javascript = Inr (Some ''var a = 1;''),
      get_obfuscation_score = (\<lambda>c. Inr 0.1),
      deobfuscate = (\<lambda>c. Inr c),
      beautify_javascript = (\<lambda>c. c),
      generate_hash = (\<lambda>c. Inr (ast_info ''h1'')),
      line_similarity = const_ratio 0.5,
      char_similarity = const_ratio 0.5,
      get_previous_content = Inr None,
      store_version = Inr (),
      get_previous_content_stored = Inr None,
      html_diff = (\<lambda>p c. Inr None),
      save_diff_file = Inr (),
      send_notification = Inr (),
      commit = Inr ()\<rparr>"

definition new_url :: monitored_url where
  "new_url = \<lparr>last_hash = None, last_hash_info = No_attribute\<rparr>"

definition parse_succeeds :: "string \<Rightarrow> string option" where
  "parse_succeeds normalized_content = Some ''h1''"

definition parse_fails :: "string \<Rightarrow> string option" where
  "parse_fails normalized_content = None"

section \<open>Properties of the chunk comparison and the classifier\<close>

lemma concat_map_if: "concat (map (\<lambda>i. if P i then [f i] else []) xs) = map f (filter P xs)"
  by (induction xs) auto

lemma chunk_change_differs:
  "chunk_change i (chunk_at old i) (chunk_at new i) \<noteq> [] \<longleftrightarrow> chunk_differs old new i"
  by (auto simp: chunk_at_def chunk_differs_def)

lemma chunk_change_weight:
  "map changed_weight (chunk_change i (chunk_at old i) (chunk_at new i)) =
     (if chunk_differs old new i then [weight_at old new i] else [])"
  by (auto simp: chunk_at_def chunk_differs_def weight_at_def)

lemma chunk_change_index:
  "map chunk_index (chunk_change i (chunk_at old i) (chunk_at new i)) =
     (if chunk_differs old new i then [i] else [])"
  by (auto simp: chunk_at_def chunk_differs_def)

lemma changed_weights:
  "map changed_weight (changed_chunks_of old new) =
     map (weight_at old new) (filter (chunk_differs old new) [0 ..< max (length old) (length new)])"
  unfolding changed_chunks_of_def
  by (simp add: map_concat comp_def chunk_change_weight concat_map_if)

lemma changed_indices:
  "map chunk_index (changed_chunks_of old new) =
     filter (chunk_differs old new) [0 ..< max (length old) (length new)]"
proof -
  have "map chunk_index (changed_chunks_of old new) =
     map (\<lambda>i. i) (filter (chunk_differs old new) [0 ..< max (length old) (length new)])"
    unfolding changed_chunks_of_def
    by (simp only: map_concat map_map comp_def chunk_change_index concat_map_if)
  then show ?thesis by simp
qed

lemma changed_pairs:
  "map (\<lambda>c. (chunk_index c, changed_weight c)) (changed_chunks_of old new) =
     map (\<lambda>i. (i, weight_at old new i)) (filter (chunk_differs old new) [0 ..< max (length old) (length new)])"
proof -
  have "map (\<lambda>c. (chunk_index c, changed_weight c)) (chunk_change i (chunk_at old i) (chunk_at new i)) =
     (if chunk_differs old new i then [(i, weight_at old new i)] else [])" for i
    by (auto simp: chunk_at_def chunk_differs_def weight_at_def)
  then show ?thesis
    unfolding changed_chunks_of_def
    by (simp only: map_concat map_map comp_def concat_map_if)
qed

lemma chunk_differs_lt:
  "chunk_differs old new i \<Longrightarrow> i < max (length old) (length new)"
  by (auto simp: chunk_differs_def max_def split: if_splits)

lemma changed_nonempty:
  "changed_chunks_of old new \<noteq> [] \<longleftrightarrow> (\<exists>i. chunk_differs old new i)"
proof -
  have "changed_chunks_of old new \<noteq> [] \<longleftrightarrow> map chunk_index (changed_chunks_of old new) \<noteq> []"
    by simp
  also have "\<dots> \<longleftrightarrow> (\<exists>i < max (length old) (length new). chunk_differs old new i)"
    unfolding changed_indices by (auto simp: filter_empty_conv)
  also have "\<dots> \<longleftrightarrow> (\<exists>i. chunk_differs old new i)"
    using chunk_differs_lt by blast
  finally show ?thesis .
qed

lemma list_ex_important:
  "list_ex important_change cs \<longleftrightarrow>
     list_ex (\<lambda>p. fst p \<le> 1 \<and> snd p \<ge> 2) (map (\<lambda>c. (chunk_index c, changed_weight c)) cs)"
  by (induction cs) (simp_all add: important_change_def)

lemma important_iff:
  "list_ex important_change (changed_chunks_of old new) \<longleftrightarrow>
     (\<exists>i\<le>1. chunk_differs old new i \<and> weight_at old new i \<ge> 2)"
proof -
  have "list_ex important_change (changed_chunks_of old new) \<longleftrightarrow>
     list_ex (\<lambda>p. fst p \<le> 1 \<and> snd p \<ge> 2)
       (map (\<lambda>i. (i, weight_at old new i))
          (filter (chunk_differs old new) [0 ..< max (length old) (length new)]))"
    by (simp only: list_ex_important changed_pairs)
  also have "\<dots> \<longleftrightarrow>
     (\<exists>i < max (length old) (length new). chunk_differs old new i \<and> i \<le> 1 \<and> weight_at old new i \<ge> 2)"
    by (auto simp: list_ex_iff)
  also have "\<dots> \<longleftrightarrow> (\<exists>i\<le>1. chunk_differs old new i \<and> weight_at old new i \<ge> 2)"
    using chunk_differs_lt by blast
  finally show ?thesis .
qed

lemma some_chunk_differs_iff:
  "some_chunk_differs old new \<longleftrightarrow> changed_chunks_of old new \<noteq> []"
  unfolding some_chunk_differs_def changed_nonempty list_ex_iff
  using chunk_differs_lt by auto

lemma important_at_iff:
  "important_at old new \<longleftrightarrow> list_ex important_change (changed_chunks_of old new)"
proof -
  have "(\<exists>i\<le>1. P i) \<longleftrightarrow> P 0 \<or> P (1::nat)" for P
    by (metis le_zero_eq less_one linorder_not_less nat_le_linear order_antisym_conv)
  then show ?thesis
    unfolding important_iff important_at_def by simp
qed

lemma sum_changed_weight:
  "sum_list (map changed_weight (changed_chunks_of old new)) = changed_weight_sum old new"
  by (simp only: changed_weights changed_weight_sum_def)

lemma compare_chunk_hashes_changed_eq:
  assumes "chunked old_hash_info" and "chunked new_hash_info"
    and "some_chunk_differs (chunk_details_of old_hash_info) (chunk_details_of new_hash_info)"
  shows "compare_chunk_hashes old_hash_info new_hash_info =
     Some \<lparr>changed = True,
           result_confidence =
             claimed_confidence
               (important_at (chunk_details_of old_hash_info) (chunk_details_of new_hash_info))
               (guarded_ratio (chunk_details_of old_hash_info) (chunk_details_of new_hash_info)),
           evidence = Some
             \<lparr>changed_chunks =
                changed_chunks_of (chunk_details_of old_hash_info) (chunk_details_of new_hash_info),
              change_ratio =
                guarded_ratio (chunk_details_of old_hash_info) (chunk_details_of new_hash_info),
              has_important_change =
                important_at (chunk_details_of old_hash_info) (chunk_details_of new_hash_info)\<rparr>\<rparr>"
proof -
  let ?o = "chunk_details_of old_hash_info" and ?n = "chunk_details_of new_hash_info"
  have ne: "changed_chunks_of ?o ?n \<noteq> []"
    using assms(3) by (simp add: some_chunk_differs_iff)
  show ?thesis
    using assms(1,2) ne
    unfolding compare_chunk_hashes_def chunked_def Let_def
    by (simp add: total_weight_def sum_changed_weight important_at_iff guarded_ratio_def claimed_confidence_def ac_simps)
qed








lemma same_hash_result:
  "hash old_hash_info = hash new_hash_info \<Longrightarrow>
     calculate_change_confidence old_hash_info new_hash_info sim = plain_result False 0.99"
  by (simp add: calculate_change_confidence_def)





lemma details_chunked_info: "chunk_details_of (chunked_info h cs) = cs"
  by (simp add: chunk_details_of_def chunked_info_def)





lemma three_claimed_ratio:
  "h \<noteq> h' \<Longrightarrow> claimed_ratio (three_chunks h w) (three_chunks h' w') = w' / (10 + w + w')"
  by (simp add: claimed_ratio_def total_weight_def changed_weight_sum_def chunk_differs_def
      weight_at_def three_chunks_def upt_conv_Cons add.commute add.left_commute)







lemma result_confidence_compare:
  assumes "chunked old_hash_info" and "chunked new_hash_info"
    and "some_chunk_differs (chunk_details_of old_hash_info) (chunk_details_of new_hash_info)"
  shows "map_option result_confidence (compare_chunk_hashes old_hash_info new_hash_info) =
     Some (claimed_confidence
             (important_at (chunk_details_of old_hash_info) (chunk_details_of new_hash_info))
             (guarded_ratio (chunk_details_of old_hash_info) (chunk_details_of new_hash_info)))"
  by (simp add: compare_chunk_hashes_changed_eq[OF assms])



lemma length_gap_similarity:
  assumes "0.3 * real (max (length old_content) (length new_content)) <
             \<bar>real (length old_content) - real (length new_content)\<bar>"
  shows "enhanced_content_comparison line_ratio char_ratio old_content new_content =
     \<lparr>similarity = 0, major_change = True,
      length_diff = \<bar>real (length old_content) - real (length new_content)\<bar> /
                    real (max (length old_content) (length new_content))\<rparr>"
proof -
  let ?m = "max (length old_content) (length new_content)"
  have m: "?m \<noteq> 0"
    using assms by (cases "?m = 0") auto
  then have "0 < ?m" by (rule neq0_conv[THEN iffD1])
  then have pos: "0 < real ?m" by (simp only: of_nat_0_less_iff)
  have "0.3 < \<bar>real (length old_content) - real (length new_content)\<bar> / real ?m"
    using assms pos by (simp add: pos_less_divide_eq)
  then show ?thesis
    using m unfolding enhanced_content_comparison_def Let_def by simp
qed

lemma zero_similarity_changed:
  assumes "hash old_hash_info \<noteq> hash new_hash_info" and "similarity s = 0"
  shows "changed (calculate_change_confidence old_hash_info new_hash_info (Some s))"
  using assms unfolding calculate_change_confidence_def Let_def
  by (simp add: plain_result_def split: option.split)

lemma shrink_gap:
  "0.3 * real (max (length (text_of_length 10000)) (length (text_of_length 6000))) <
     \<bar>real (length (text_of_length 10000)) - real (length (text_of_length 6000))\<bar>"
  by (simp add: text_of_length_def)

section \<open>Properties of the fingerprint engine\<close>

lemma py_range_2001: "py_range 2001 1000 = Inr [0, 1000, 2000]"
  by (simp add: py_range_def upt_conv_Cons)

lemma at_threshold:
  "length js_content = chunk_size \<Longrightarrow>
     generate_position_aware_hash md5 normalizer js_content chunk_size =
       Inr (simple_info (md5 js_content))"
  by (simp add: generate_position_aware_hash_def)

lemma above_default_threshold:
  assumes "length js_content = 2001"
  shows "generate_position_aware_hash md5 normalizer js_content 2000 =
     Inr (chunked_info
       (md5 (weighted_hash_parts
          [\<lparr>chunk_start = 0, chunk_end = 2000,
             chunk_hash = md5 (normalizer (take 2000 js_content)), weight = 3\<rparr>,
           \<lparr>chunk_start = 1000, chunk_end = 2001,
             chunk_hash = md5 (normalizer (drop 1000 js_content)), weight = 2\<rparr>]))
       [\<lparr>chunk_start = 0, chunk_end = 2000,
          chunk_hash = md5 (normalizer (take 2000 js_content)), weight = 3\<rparr>,
        \<lparr>chunk_start = 1000, chunk_end = 2001,
          chunk_hash = md5 (normalizer (drop 1000 js_content)), weight = 2\<rparr>])"
  using assms
  by (simp add: generate_position_aware_hash_def py_range_2001 chunk_weight_def Let_def)

lemma hash_chunks_nonempty:
  "acc \<noteq> [] \<Longrightarrow> hash_chunks md5 normalizer js_content chunk_size offsets acc \<noteq> []"
  by (induction offsets arbitrary: acc) (simp_all add: Let_def)

lemma hash_chunks_weights:
  "list_all (\<lambda>c. 1 \<le> weight c) acc \<Longrightarrow>
     list_all (\<lambda>c. 1 \<le> weight c) (hash_chunks md5 normalizer js_content chunk_size offsets acc)"
  by (induction offsets arbitrary: acc) (simp_all add: Let_def chunk_weight_def)

lemma py_range_head:
  assumes "0 < step" and "0 < stop"
  shows "\<exists>rest. py_range stop step = Inr (0 # rest)"
proof -
  have "step \<le> stop + step - 1" using assms by simp
  then have "1 \<le> (stop + step - 1) div step"
    using assms(1) by (simp add: div_greater_zero_iff Suc_le_eq)
  then have "[0 ..< (stop + step - 1) div step] = 0 # [1 ..< (stop + step - 1) div step]"
    by (simp add: upt_conv_Cons)
  then show ?thesis
    using assms(1) by (simp add: py_range_def)
qed

lemma above_threshold:
  assumes "100 \<le> chunk_size" and "length js_content = Suc chunk_size"
  shows "\<exists>h cs. generate_position_aware_hash md5 normalizer js_content chunk_size =
           Inr (chunked_info h cs) \<and> cs \<noteq> []"
proof -
  have step: "0 < chunk_size div 2" using assms(1) by simp
  from py_range_head[OF step, of "length js_content"] assms(2)
  obtain rest where r: "py_range (length js_content) (chunk_size div 2) = Inr (0 # rest)"
    by auto
  let ?c = "\<lparr>chunk_start = 0, chunk_end = chunk_size,
             chunk_hash = md5 (normalizer (take chunk_size js_content)), weight = 3\<rparr>"
  have "hash_chunks md5 normalizer js_content chunk_size (0 # rest) [] =
          hash_chunks md5 normalizer js_content chunk_size rest [?c]"
    using assms by (simp add: Let_def chunk_weight_def min_def)
  moreover have "hash_chunks md5 normalizer js_content chunk_size rest [?c] \<noteq> []"
    by (rule hash_chunks_nonempty) simp
  ultimately have "hash_chunks md5 normalizer js_content chunk_size (0 # rest) [] \<noteq> []"
    by simp
  then show ?thesis
    using assms(2) r
    by (auto simp add: generate_position_aware_hash_def Let_def simp del: hash_chunks.simps)
qed

lemma engine_weights:
  assumes "generate_position_aware_hash md5 normalizer js_content chunk_size = Inr h"
  shows "list_all (\<lambda>c. 1 \<le> weight c) (chunk_details_of h)"
proof (cases "length js_content \<le> chunk_size")
  case True
  with assms show ?thesis
    by (auto simp: generate_position_aware_hash_def simple_info_def chunk_details_of_def)
next
  case False
  have "list_all (\<lambda>c. 1 \<le> weight c)
          (hash_chunks md5 normalizer js_content chunk_size offsets [])" for offsets
    by (rule hash_chunks_weights) simp
  with assms False show ?thesis
    by (auto simp: generate_position_aware_hash_def Let_def details_chunked_info
        split: sum.splits)
qed

lemma engine_small_text:
  assumes "length js_content \<le> 10000"
  shows "generate_enhanced_ast_hash md5 normalizer ast_hash js_content =
     (case ast_hash (normalizer js_content) of
        Some h \<Rightarrow> Inr (ast_info h)
      | None \<Rightarrow> generate_position_aware_hash md5 normalizer js_content default_chunk_size)"
  using assms by (simp add: generate_enhanced_ast_hash_def)

section \<open>Properties of the content storage\<close>












section \<open>Properties of the diff renderer\<close>
















section \<open>Properties of the monitoring cycle\<close>

lemma never_checked_no_hash: "never_checked u \<Longrightarrow> \<not> has_hash (old_hash_info_of u)"
  by (auto simp: never_checked_def old_hash_info_of_def has_hash_def legacy_info_def)

lemma record_change_first:
  assumes "\<not> has_hash old_hash_info"
  shows "(\<exists>e. record_change env u old_hash_info current_hash_info content conf = Inl e) \<or>
         (\<exists>u'. record_change env u old_hash_info current_hash_info content conf =
            Inr (success_result First_check_completed False conf (method_tag current_hash_info), u'))"
  using assms unfolding record_change_def Let_def
  by (cases "store_version env"; cases "commit env") simp_all

lemma monitor_cycle_first:
  assumes "\<not> has_hash (old_hash_info_of u)"
  shows "(\<exists>e. monitor_cycle env u = Inl e) \<or>
         monitor_cycle env u = Inr (failure_result Download_failed, u) \<or>
         (\<exists>conf meth u'. monitor_cycle env u =
            Inr (success_result First_check_completed False conf meth, u'))"
proof -
  have rc: "(\<exists>e. record_change env u (old_hash_info_of u) c content conf = Inl e) \<or>
         (\<exists>u'. record_change env u (old_hash_info_of u) c content conf =
            Inr (success_result First_check_completed False conf (method_tag c), u'))"
    for c content conf
    by (rule record_change_first[OF assms])
  show ?thesis
  proof (cases "download_javascript env")
    case (Inl e)
    then show ?thesis by (simp add: monitor_cycle_def)
  next
    case (Inr d)
    note d = this
    show ?thesis
    proof (cases d)
      case None
      with d show ?thesis by (simp add: monitor_cycle_def)
    next
      case (Some downloaded)
      show ?thesis
      proof (cases "get_obfuscation_score env downloaded")
        case (Inl e)
        with d Some show ?thesis by (simp add: monitor_cycle_def)
      next
        case (Inr score)
        note s = this
        show ?thesis
        proof (cases "if score > 0.3 then deobfuscate env downloaded else Inr downloaded")
          case (Inl e)
          with d Some s show ?thesis by (simp add: monitor_cycle_def)
        next
          case (Inr deobfuscated)
          note b = this
          show ?thesis
          proof (cases "generate_hash env (beautify_javascript env deobfuscated)")
            case (Inl e)
            with d Some s b show ?thesis by (simp add: monitor_cycle_def)
          next
            case (Inr c)
            have "monitor_cycle env u =
                    record_change env u (old_hash_info_of u) c
                      (beautify_javascript env deobfuscated) (confidence c)"
              using d Some s b Inr assms by (simp add: monitor_cycle_def Let_def)
            with rc[of c "beautify_javascript env deobfuscated" "confidence c"]
            show ?thesis by auto
          qed
        qed
      qed
    qed
  qed
qed





section \<open>The claims\<close>







text \<open>
  Claim C3, as amended. When the lengths of the previous and the current text differ by
  more than 30% of the longer one, \<^verbatim>\<open>enhanced_content_comparison\<close> reports similarity 0,
  and with that result \<^verbatim>\<open>calculate_change_confidence\<close> answers \<^verbatim>\<open>changed = True\<close>
  whenever the two hash values differ, whatever the chunk comparison says; when the two
  hash values are equal the verdict stays \<^verbatim>\<open>changed = False\<close> with confidence 0.99.
\<close>

theorem length_gap_forces_change:
  assumes "0.3 * real (max (length old_content) (length new_content)) <
             \<bar>real (length old_content) - real (length new_content)\<bar>"
  shows "similarity (enhanced_content_comparison line_ratio char_ratio old_content new_content) = 0 \<and>
         (hash old_hash_info \<noteq> hash new_hash_info \<longrightarrow>
            changed (calculate_change_confidence old_hash_info new_hash_info
              (Some (enhanced_content_comparison line_ratio char_ratio old_content new_content)))) \<and>
         (hash old_hash_info = hash new_hash_info \<longrightarrow>
            calculate_change_confidence old_hash_info new_hash_info
              (Some (enhanced_content_comparison line_ratio char_ratio old_content new_content)) =
            plain_result False 0.99)"
proof -
  have s: "similarity (enhanced_content_comparison line_ratio char_ratio old_content new_content) = 0"
    by (simp add: length_gap_similarity[OF assms])
  show ?thesis
    using s zero_similarity_changed[of old_hash_info new_hash_info, OF _ s]
      same_hash_result[of old_hash_info new_hash_info]
    by blast
qed

text \<open>
  The theorem at a text of 10000 characters that shrinks to 6000 characters.
\<close>

theorem length_gap_forces_change_witness:
  "similarity (enhanced_content_comparison (const_ratio 1) (const_ratio 1)
      (text_of_length 10000) (text_of_length 6000)) = 0 \<and>
   changed (calculate_change_confidence (ast_info ''h1'') (ast_info ''h2'')
      (Some (enhanced_content_comparison (const_ratio 1) (const_ratio 1)
         (text_of_length 10000) (text_of_length 6000)))) \<and>
   calculate_change_confidence (ast_info ''h1'') (ast_info ''h1'')
      (Some (enhanced_content_comparison (const_ratio 1) (const_ratio 1)
         (text_of_length 10000) (text_of_length 6000))) = plain_result False 0.99"
proof -
  have ne: "hash (ast_info ''h1'') \<noteq> hash (ast_info ''h2'')"
    by (simp add: ast_info_def)
  show ?thesis
    using ne
      length_gap_forces_change[OF shrink_gap, of "const_ratio 1" "const_ratio 1"
        "ast_info ''h1''" "ast_info ''h2''"]
      length_gap_forces_change[OF shrink_gap, of "const_ratio 1" "const_ratio 1"
        "ast_info ''h1''" "ast_info ''h1''"]
    by simp
qed

text \<open>
  Claim C3 as stated promises \<^verbatim>\<open>changed = True\<close> regardless of the hash comparison. A
  shrink from 10000 to 6000 characters that leaves the hash value as it was (the AST hash
  ignores comments and layout) is classified as unchanged.
\<close>

theorem equal_hash_shrink_counterexample:
  "0.3 * real (max (length (text_of_length 10000)) (length (text_of_length 6000))) <
     \<bar>real (length (text_of_length 10000)) - real (length (text_of_length 6000))\<bar> \<and>
   similarity (enhanced_content_comparison (const_ratio 1) (const_ratio 1)
      (text_of_length 10000) (text_of_length 6000)) = 0 \<and>
   \<not> changed (calculate_change_confidence (ast_info ''h1'') (ast_info ''h1'')
      (Some (enhanced_content_comparison (const_ratio 1) (const_ratio 1)
         (text_of_length 10000) (text_of_length 6000))))"
proof -
  have "similarity (enhanced_content_comparison (const_ratio 1) (const_ratio 1)
      (text_of_length 10000) (text_of_length 6000)) = 0"
    by (simp add: length_gap_similarity[OF shrink_gap])
  then show ?thesis
    using shrink_gap by (simp add: same_hash_result plain_result_def)
qed

text \<open>
  Claim C4, as amended. The chunked strategy \<^verbatim>\<open>generate_position_aware_hash\<close> at its
  chunk size of 2000: a text of exactly 2000 characters is hashed whole (method
  \<^verbatim>\<open>simple_content\<close>, confidence 0.9, no chunk list); a text of 2001 characters gets the
  method \<^verbatim>\<open>position_aware_chunked\<close> with a chunk list that is not empty. The engine
  \<^verbatim>\<open>generate_enhanced_ast_hash\<close> hands a text of at most 10000 characters to this
  strategy only when the AST hash fails; when it succeeds the engine returns the method
  \<^verbatim>\<open>ast\<close> with confidence 0.95.
\<close>

theorem threshold_boundary:
  "(length js_content = default_chunk_size \<longrightarrow>
      generate_position_aware_hash md5 normalizer js_content default_chunk_size =
        Inr \<lparr>hash = Some (md5 js_content), method_tag = ''simple_content'', confidence = 0.9,
             chunks = Some 1, chunk_details = None\<rparr>) \<and>
   (length js_content = Suc default_chunk_size \<longrightarrow>
      (\<exists>h cs. generate_position_aware_hash md5 normalizer js_content default_chunk_size =
         Inr \<lparr>hash = Some h, method_tag = ''position_aware_chunked'', confidence = 0.92,
              chunks = Some (length cs), chunk_details = Some cs\<rparr> \<and> cs \<noteq> [])) \<and>
   (length js_content \<le> 10000 \<longrightarrow>
      generate_enhanced_ast_hash md5 normalizer ast_hash js_content =
        (case ast_hash (normalizer js_content) of
           Some h \<Rightarrow>
             Inr \<lparr>hash = Some h, method_tag = ''ast'', confidence = 0.95, chunks = None,
                  chunk_details = None\<rparr>
         | None \<Rightarrow> generate_position_aware_hash md5 normalizer js_content default_chunk_size))"
proof -
  have big: "100 \<le> default_chunk_size" by (simp add: default_chunk_size_def)
  have a: "length js_content = default_chunk_size \<longrightarrow>
      generate_position_aware_hash md5 normalizer js_content default_chunk_size =
        Inr \<lparr>hash = Some (md5 js_content), method_tag = ''simple_content'', confidence = 0.9,
             chunks = Some 1, chunk_details = None\<rparr>"
    using at_threshold[of js_content default_chunk_size md5 normalizer]
    by (simp add: simple_info_def)
  have b: "length js_content = Suc default_chunk_size \<longrightarrow>
      (\<exists>h cs. generate_position_aware_hash md5 normalizer js_content default_chunk_size =
         Inr \<lparr>hash = Some h, method_tag = ''position_aware_chunked'', confidence = 0.92,
              chunks = Some (length cs), chunk_details = Some cs\<rparr> \<and> cs \<noteq> [])"
    using above_threshold[OF big, of js_content md5 normalizer]
    by (simp add: chunked_info_def)
  have c: "length js_content \<le> 10000 \<longrightarrow>
      generate_enhanced_ast_hash md5 normalizer ast_hash js_content =
        (case ast_hash (normalizer js_content) of
           Some h \<Rightarrow>
             Inr \<lparr>hash = Some h, method_tag = ''ast'', confidence = 0.95, chunks = None,
                  chunk_details = None\<rparr>
         | None \<Rightarrow> generate_position_aware_hash md5 normalizer js_content default_chunk_size)"
    using engine_small_text[of js_content md5 normalizer ast_hash]
    by (simp add: ast_info_def split: option.split)
  from a b c show ?thesis by (intro conjI)
qed

text \<open>
  The theorem at texts of 2000 and 2001 characters, and the engine at a text of 2000
  characters that does not parse.
\<close>

theorem threshold_boundary_witness:
  "generate_position_aware_hash plain_md5 plain_md5 (text_of_length 2000) default_chunk_size =
     Inr \<lparr>hash = Some (text_of_length 2000), method_tag = ''simple_content'', confidence = 0.9,
          chunks = Some 1, chunk_details = None\<rparr> \<and>
   (\<exists>h cs. generate_position_aware_hash plain_md5 plain_md5 (text_of_length 2001)
              default_chunk_size =
         Inr \<lparr>hash = Some h, method_tag = ''position_aware_chunked'', confidence = 0.92,
              chunks = Some (length cs), chunk_details = Some cs\<rparr> \<and> cs \<noteq> []) \<and>
   generate_enhanced_ast_hash plain_md5 plain_md5 parse_fails (text_of_length 2000) =
     Inr \<lparr>hash = Some (text_of_length 2000), method_tag = ''simple_content'', confidence = 0.9,
          chunks = Some 1, chunk_details = None\<rparr>"
proof -
  have a: "length (text_of_length 2000) = default_chunk_size"
    by (simp add: text_of_length_def default_chunk_size_def)
  have b: "length (text_of_length 2001) = Suc default_chunk_size"
    by (simp add: text_of_length_def default_chunk_size_def)
  have c: "length (text_of_length 2000) \<le> 10000"
    by (simp add: text_of_length_def)
  show ?thesis
    using a b c threshold_boundary[of "text_of_length 2000" plain_md5 plain_md5 parse_fails]
      threshold_boundary[of "text_of_length 2001" plain_md5 plain_md5 parse_fails]
    by (simp add: plain_md5_def parse_fails_def)
qed

text \<open>
  Claim C4 as stated speaks of every text of the threshold length. For a text of 2000 or of
  2001 characters that parses, the engine returns the method \<^verbatim>\<open>ast\<close>, neither
  \<^verbatim>\<open>simple_content\<close> nor \<^verbatim>\<open>position_aware_chunked\<close>.
\<close>

theorem parsed_text_counterexample:
  "length (text_of_length 2000) = default_chunk_size \<and>
   generate_enhanced_ast_hash plain_md5 plain_md5 parse_succeeds (text_of_length 2000) =
     Inr \<lparr>hash = Some ''h1'', method_tag = ''ast'', confidence = 0.95, chunks = None,
          chunk_details = None\<rparr> \<and>
   length (text_of_length 2001) = Suc default_chunk_size \<and>
   generate_enhanced_ast_hash plain_md5 plain_md5 parse_succeeds (text_of_length 2001) =
     Inr \<lparr>hash = Some ''h1'', method_tag = ''ast'', confidence = 0.95, chunks = None,
          chunk_details = None\<rparr>"
  by (simp add: generate_enhanced_ast_hash_def text_of_length_def default_chunk_size_def
      parse_succeeds_def ast_info_def)

text \<open>
  Claim C5. For a URL that was never checked, whatever the collaborators answer,
  \<^verbatim>\<open>monitor_single_url\<close> never reports \<^verbatim>\<open>changed = True\<close>: a cycle that succeeds reports
  \<^verbatim>\<open>changed = False\<close> with the message of a completed first check, and a cycle that fails
  returns a result without the key \<^verbatim>\<open>changed\<close>, which \<^verbatim>\<open>run_monitoring_check\<close> reads as
  false.
\<close>

theorem first_check_reports_unchanged:
  assumes "never_checked u"
  shows "\<not> get_changed (fst (monitor_single_url env u)) \<and>
         changed_key (fst (monitor_single_url env u)) \<noteq> Some True \<and>
         (success (fst (monitor_single_url env u)) \<longrightarrow>
            changed_key (fst (monitor_single_url env u)) = Some False \<and>
            message (fst (monitor_single_url env u)) = First_check_completed)"
  using monitor_cycle_first[OF never_checked_no_hash[OF assms], of env]
  by (auto simp: monitor_single_url_def get_changed_def failure_result_def success_result_def)

text \<open>
  The theorem at a new URL and collaborators that all succeed: the first check is reported
  and the hash of the content becomes the URL's \<^verbatim>\<open>last_hash\<close>.
\<close>

theorem first_check_reports_unchanged_witness:
  "monitor_single_url quiet_collaborators new_url =
     (\<lparr>success = True, message = First_check_completed, changed_key = Some False,
       confidence_key = Some 0.95, method_key = Some ''ast''\<rparr>,
      \<lparr>last_hash = Some ''h1'', last_hash_info = No_attribute\<rparr>) \<and>
   \<not> get_changed (fst (monitor_single_url quiet_collaborators new_url))"
proof -
  have n: "never_checked new_url" by (simp add: never_checked_def new_url_def)
  have "monitor_single_url quiet_collaborators new_url =
     (\<lparr>success = True, message = First_check_completed, changed_key = Some False,
       confidence_key = Some 0.95, method_key = Some ''ast''\<rparr>,
      \<lparr>last_hash = Some ''h1'', last_hash_info = No_attribute\<rparr>)"
    by (simp add: monitor_single_url_def monitor_cycle_def record_change_def
        quiet_collaborators_def new_url_def old_hash_info_of_def legacy_info_def has_hash_def
        ast_info_def success_result_def)
  with first_check_reports_unchanged[OF n, of quiet_collaborators] show ?thesis by simp
qed

text \<open>
  Claim C6. Classifying a fingerprint against itself: the hash values are identical, so
  \<^verbatim>\<open>calculate_change_confidence\<close> returns at its first test, before the chunk
  comparison and whatever similarity result the caller passes. The verdict is
  \<^verbatim>\<open>changed = False\<close> with confidence 0.99 and carries no chunk evidence.
\<close>

theorem classify_same_fingerprint:
  "calculate_change_confidence F F sim = \<lparr>changed = False, result_confidence = 0.99, evidence = None\<rparr>
   \<and> \<not> changed (calculate_change_confidence F F sim)
   \<and> 0.99 \<le> result_confidence (calculate_change_confidence F F sim)"
  by (simp add: same_hash_result plain_result_def)











end
